theory Spec2Isabelle
  imports Complex_Main "HOL-Library.Log_Nat"
begin

section \<open>Order and payment lifecycle of the shop backend\<close>

text \<open>
  The routes \<^verbatim>\<open>POST /placeorder\<close>, \<^verbatim>\<open>POST /create-cashfree-order\<close>,
  \<^verbatim>\<open>POST /verify-payment\<close> and \<^verbatim>\<open>PUT /admin/orders/:id\<close> of the server, with the
  Mongoose schemas they use, as functions from the database before the request to the
  response, the database after it, the calls made to the payment gateway and the lines
  written with \<^verbatim>\<open>console.error\<close>.

  Conventions of the embedding:
  \<^item> a JavaScript value that may be \<^verbatim>\<open>undefined\<close> is an \<open>option\<close>; a string is falsy when
    it is \<^verbatim>\<open>undefined\<close> or empty;
  \<^item> a JavaScript Number is an IEEE double: not-a-number, an infinity, or the rational
    value of a finite double, with sums and products rounded to the nearest double;
  \<^item> an ObjectId is its hexadecimal string. The collection is keyed by ObjectIds, and the
    route functions take an id that Mongoose has cast already; what
    \<^verbatim>\<open>POST /create-cashfree-order\<close> does with the string the client sent, cast
    included, is \<open>post_create_cashfree_order\<close>;
  \<^item> the collection of orders is a finite map from \<^verbatim>\<open>_id\<close> to document; the database
    itself is available (its operations fail only where a schema or the unique index on
    \<^verbatim>\<open>_id\<close> rejects a document);
  \<^item> the payment gateway is an input: a client whose \<open>post\<close> and \<open>get\<close> either resolve
    with the body of the reply or reject as axios does.
\<close>

subsection \<open>JavaScript Numbers\<close>

text \<open>A Number is \<^verbatim>\<open>NaN\<close>, \<^verbatim>\<open>Infinity\<close>, \<^verbatim>\<open>-Infinity\<close> or a finite double, held as
  the rational it denotes. The two zeros are one value here: \<^verbatim>\<open>+\<close> and \<^verbatim>\<open>*\<close> tell them
  apart only in the sign of a zero result. A number written in a JSON body is the
  double nearest to it, \<open>round_double\<close> of the written value; \<open>Finite x\<close> is a
  Number only for \<open>x\<close> with \<open>round_double x = Finite x\<close>.\<close>

datatype number = NaN | PosInfinity | NegInfinity | Finite rat

definition pow2 :: "int \<Rightarrow> rat" where
  "pow2 k = (if 0 \<le> k then 2 ^ nat k else 1 / 2 ^ nat (- k))"

text \<open>The binary exponent of a positive rational \<open>a\<close>: the \<open>e\<close> with
  \<open>pow2 e \<le> a < pow2 (e + 1)\<close>.\<close>

definition exponent :: "rat \<Rightarrow> int" where
  "exponent a = (if 1 \<le> a then bitlen \<lfloor>a\<rfloor> - 1 else - bitlen (\<lceil>1 / a\<rceil> - 1))"

definition round_half_even :: "rat \<Rightarrow> int" where
  "round_half_even x =
     (let f = \<lfloor>x\<rfloor>; r = x - of_int f
      in if r < 1 / 2 then f else if 1 / 2 < r then f + 1 else if even f then f else f + 1)"

text \<open>Rounding to the nearest double, ties to even: 53 significant bits, the smallest
  exponent -1022 (below it the spacing stays \<open>pow2 (- 1074)\<close>), and an infinity when
  the rounded magnitude reaches \<open>2 ^ 1024\<close>.\<close>

definition round_double :: "rat \<Rightarrow> number" where
  "round_double x =
     (if x = 0 then Finite 0
      else
        (let a = \<bar>x\<bar>;
             q = max (exponent a) (- 1022) - 52;
             v = of_int (round_half_even (a / pow2 q)) * pow2 q
         in if 2 ^ 1024 \<le> v then (if x < 0 then NegInfinity else PosInfinity)
            else Finite (if x < 0 then - v else v)))"

text \<open>\<^verbatim>\<open>x * y\<close> and \<^verbatim>\<open>x + y\<close> on Numbers.\<close>

fun fmul :: "number \<Rightarrow> number \<Rightarrow> number" where
  "fmul NaN y = NaN"
| "fmul x NaN = NaN"
| "fmul (Finite a) (Finite b) = round_double (a * b)"
| "fmul (Finite a) PosInfinity = (if a = 0 then NaN else if 0 < a then PosInfinity else NegInfinity)"
| "fmul (Finite a) NegInfinity = (if a = 0 then NaN else if 0 < a then NegInfinity else PosInfinity)"
| "fmul PosInfinity (Finite b) = (if b = 0 then NaN else if 0 < b then PosInfinity else NegInfinity)"
| "fmul NegInfinity (Finite b) = (if b = 0 then NaN else if 0 < b then NegInfinity else PosInfinity)"
| "fmul PosInfinity PosInfinity = PosInfinity"
| "fmul PosInfinity NegInfinity = NegInfinity"
| "fmul NegInfinity PosInfinity = NegInfinity"
| "fmul NegInfinity NegInfinity = PosInfinity"

fun fadd :: "number \<Rightarrow> number \<Rightarrow> number" where
  "fadd NaN y = NaN"
| "fadd x NaN = NaN"
| "fadd (Finite a) (Finite b) = round_double (a + b)"
| "fadd PosInfinity NegInfinity = NaN"
| "fadd NegInfinity PosInfinity = NaN"
| "fadd PosInfinity y = PosInfinity"
| "fadd NegInfinity y = NegInfinity"
| "fadd (Finite a) y = y"


subsection \<open>Documents\<close>

type_synonym oid = string

datatype payment_method = COD | ONLINE

datatype payment_status = PENDING | PAID

record order_item =
  productId :: "oid option"
  name :: "string option"
  quantity :: number
  price :: number
  image_url :: "string option"

record shipping_address =
  addr_name :: "string option"
  address :: "string option"
  city :: "string option"
  state :: "string option"
  zip_code :: "string option"
  phone :: "string option"

record order =
  userEmail :: string
  items :: "order_item list"
  totalAmount :: number
  shippingAddress :: shipping_address
  paymentMethod :: payment_method
  paymentStatus :: payment_status
  status :: string
  createdAt :: nat

record product =
  product_id :: nat
  product_name :: string
  images :: "string list"
  category :: string
  new_price :: number
  old_price :: number
  date :: nat
  available :: bool

record database =
  orders :: "oid \<rightharpoonup> order"
  products :: "product list"

subsection \<open>Requests, replies and the gateway client\<close>

record user_claims =
  username :: string
  email :: string
  role :: string

text \<open>What \<^verbatim>\<open>authenticateToken\<close> finds in the Authorization header: no token, a token
  that \<^verbatim>\<open>jwt.verify\<close> rejects, or a token carrying the claims signed at login.\<close>

datatype credential = NoToken | InvalidToken | ValidToken user_claims

type_synonym json_obj = "(string \<times> string) list"

text \<open>A rejected axios call: \<^verbatim>\<open>err.response\<close> (status and data) when the gateway answered,
  and \<^verbatim>\<open>err.message\<close>.\<close>

datatype axios_result =
    Resolved "json_obj option"
  | Rejected "(nat \<times> json_obj option) option" string

record customer_details =
  customer_id :: string
  customer_email :: string
  customer_phone :: string

record payload =
  order_id :: string
  order_amount :: number
  order_currency :: string
  customer :: customer_details
  return_url :: string

record pg_client =
  post :: "string \<Rightarrow> payload \<Rightarrow> axios_result"
  get :: "string \<Rightarrow> axios_result"

datatype gw_call = Post string payload | Get string

datatype error =
    ValidationError
  | CastError
  | DuplicateKeyError
  | TypeError
  | AxiosError "(nat \<times> json_obj option) option" string

datatype jv =
    JBool bool
  | JStr string
  | JField "string option"
  | JNum "nat option"
  | JData "json_obj option"
  | JMessage error
  | JOrder oid order

datatype response = Response (status_code: nat) (json: "(string \<times> jv) list")

record outcome =
  res :: response
  store :: database
  calls :: "gw_call list"
  logs :: "(string \<times> jv) list"

definition reply :: "database \<Rightarrow> nat \<Rightarrow> (string \<times> jv) list \<Rightarrow> outcome" where
  "reply st code body = \<lparr>res = Response code body, store = st, calls = [], logs = []\<rparr>"

definition falsy :: "string option \<Rightarrow> bool" where
  "falsy s = (case s of None \<Rightarrow> True | Some t \<Rightarrow> t = [])"

text \<open>Optional chaining on the body of a gateway reply: \<^verbatim>\<open>data?.key\<close>.\<close>

definition field :: "json_obj option \<Rightarrow> string \<Rightarrow> string option" where
  "field d k = (case d of None \<Rightarrow> None | Some obj \<Rightarrow> map_of obj k)"

text \<open>\<^verbatim>\<open>err.response?.status\<close> and \<^verbatim>\<open>err.response?.data\<close> of a rejected call.\<close>

definition response_status :: "(nat \<times> json_obj option) option \<Rightarrow> nat option" where
  "response_status rsp = (case rsp of None \<Rightarrow> None | Some r \<Rightarrow> Some (fst r))"

definition response_data :: "(nat \<times> json_obj option) option \<Rightarrow> json_obj option" where
  "response_data rsp = (case rsp of None \<Rightarrow> None | Some r \<Rightarrow> snd r)"

subsection \<open>Middleware\<close>

definition authenticateToken ::
  "credential \<Rightarrow> (user_claims \<Rightarrow> database \<Rightarrow> outcome) \<Rightarrow> database \<Rightarrow> outcome" where
  "authenticateToken cred next st =
     (case cred of
        NoToken \<Rightarrow> reply st 401 [(''success'', JBool False), (''message'', JStr ''No token provided'')]
      | InvalidToken \<Rightarrow> reply st 403 [(''success'', JBool False), (''message'', JStr ''Invalid token'')]
      | ValidToken user \<Rightarrow> next user st)"

definition requireAdmin ::
  "user_claims \<Rightarrow> (database \<Rightarrow> outcome) \<Rightarrow> database \<Rightarrow> outcome" where
  "requireAdmin user next st =
     (if role user \<noteq> ''admin''
      then reply st 403 [(''success'', JBool False), (''message'', JStr ''Admin access required'')]
      else next st)"

subsection \<open>The Order model\<close>

text \<open>The \<^verbatim>\<open>enum\<close> of \<^verbatim>\<open>paymentMethod\<close> in the schema.\<close>

definition cast_paymentMethod :: "string \<Rightarrow> payment_method option" where
  "cast_paymentMethod m =
     (if m = ''COD'' then Some COD else if m = ''ONLINE'' then Some ONLINE else None)"

text \<open>\<^verbatim>\<open>new Order({...}).save()\<close>: the schema validates the document (\<^verbatim>\<open>userEmail\<close> is
  required, \<^verbatim>\<open>totalAmount\<close> is a Number, which \<^verbatim>\<open>NaN\<close> is not for Mongoose's cast,
  \<^verbatim>\<open>paymentMethod\<close> is required and one of the enum), the defaults \<^verbatim>\<open>status\<close> and
  \<^verbatim>\<open>createdAt\<close> are filled in, and the document is inserted under its generated \<^verbatim>\<open>_id\<close>,
  which the unique index refuses when it is taken. (A \<^verbatim>\<open>NaN\<close> in a field of an item,
  which the cast of the items refuses as well, makes the total \<^verbatim>\<open>NaN\<close>.)\<close>

definition save ::
  "oid \<Rightarrow> nat \<Rightarrow> string \<Rightarrow> order_item list \<Rightarrow> number \<Rightarrow> shipping_address \<Rightarrow> string
     \<Rightarrow> payment_status \<Rightarrow> database \<Rightarrow> error + (order \<times> database)" where
  "save newId now mail its amount addr method pstatus st =
     (if mail = [] then Inl ValidationError
      else if amount = NaN then Inl ValidationError
      else case cast_paymentMethod method of
        None \<Rightarrow> Inl ValidationError
      | Some m \<Rightarrow>
          (case orders st newId of
             Some _ \<Rightarrow> Inl DuplicateKeyError
           | None \<Rightarrow>
               (let newOrder = \<lparr>userEmail = mail, items = its, totalAmount = amount,
                                 shippingAddress = addr, paymentMethod = m,
                                 paymentStatus = pstatus, status = ''Processing'',
                                 createdAt = now\<rparr>
                in Inr (newOrder, st\<lparr>orders := (orders st)(newId \<mapsto> newOrder)\<rparr>))))"

text \<open>\<^verbatim>\<open>Order.findByIdAndUpdate(id, update)\<close>: nothing happens when no document has the id.\<close>

definition findByIdAndUpdate :: "oid \<Rightarrow> (order \<Rightarrow> order) \<Rightarrow> database \<Rightarrow> database" where
  "findByIdAndUpdate i upd st =
     (case orders st i of
        None \<Rightarrow> st
      | Some ord \<Rightarrow> st\<lparr>orders := (orders st)(i \<mapsto> upd ord)\<rparr>)"

subsection \<open>POST /placeorder\<close>

record place_body =
  body_items :: "order_item list option"
  body_address :: shipping_address
  body_paymentMethod :: "string option"
  body_other :: "(string \<times> string) list"

text \<open>The route reads \<^verbatim>\<open>items\<close>, \<^verbatim>\<open>address\<close> and \<^verbatim>\<open>paymentMethod\<close> of the body;
  \<open>body_other\<close> holds whatever else the client sent. A body without an address is one
  whose address has every field undefined, which is what the nested path of the schema
  makes of it. The generated \<^verbatim>\<open>_id\<close> and the time of \<^verbatim>\<open>Date.now\<close> are arguments.\<close>

text \<open>\<^verbatim>\<open>items.reduce((sum, item) => sum + item.price * item.quantity, 0)\<close>.\<close>

definition items_total :: "order_item list \<Rightarrow> number" where
  "items_total its =
     foldl (\<lambda>sum item. fadd sum (fmul (price item) (quantity item))) (Finite 0) its"

definition placeorder_handler ::
  "oid \<Rightarrow> nat \<Rightarrow> place_body \<Rightarrow> user_claims \<Rightarrow> database \<Rightarrow> outcome" where
  "placeorder_handler newId now body user st =
     (case body_items body of
        None \<Rightarrow> reply st 400 [(''success'', JBool False), (''message'', JStr ''No items provided'')]
      | Some its \<Rightarrow>
          if its = [] then
            reply st 400 [(''success'', JBool False), (''message'', JStr ''No items provided'')]
          else (case body_paymentMethod body of
            None \<Rightarrow>
              reply st 400 [(''success'', JBool False), (''message'', JStr ''Payment method required'')]
          | Some method \<Rightarrow>
              if method = [] then
                reply st 400 [(''success'', JBool False), (''message'', JStr ''Payment method required'')]
              else
                (let total = items_total its
                 in case save newId now (email user) its total (body_address body) method
                           (if method = ''COD'' then PENDING else PENDING) st of
                      Inl err \<Rightarrow>
                        \<lparr>res = Response 500 [(''success'', JBool False), (''message'', JMessage err)],
                         store = st, calls = [],
                         logs = [(''Place Order Error:'', JMessage err)]\<rparr>
                    | Inr (newOrder, st') \<Rightarrow>
                        reply st' 200
                          [(''success'', JBool True),
                           (''message'', JStr (if method = ''COD''
                                               then ''Order placed with Cash on Delivery''
                                               else ''Order created. Proceed to online payment'')),
                           (''order'', JOrder newId newOrder)])))"

definition placeorder ::
  "credential \<Rightarrow> oid \<Rightarrow> nat \<Rightarrow> place_body \<Rightarrow> database \<Rightarrow> outcome" where
  "placeorder cred newId now body = authenticateToken cred (placeorder_handler newId now body)"

subsection \<open>POST /create-cashfree-order\<close>

text \<open>The payload of the gateway call, built from the stored order. \<^verbatim>\<open>order_amount\<close>
  holds the order's total, the Number that the route renders with
  \<^verbatim>\<open>Number(total).toFixed(2)\<close>; the rendering as a string of digits is not part of the
  payload here. \<open>ph\<close> is the order's phone.\<close>

definition cashfree_payload :: "string \<Rightarrow> oid \<Rightarrow> order \<Rightarrow> string \<Rightarrow> payload" where
  "cashfree_payload FRONTEND_URL orderId ord ph =
     \<lparr>order_id = orderId,
      order_amount = totalAmount ord,
      order_currency = ''INR'',
      customer = \<lparr>customer_id = userEmail ord,
                  customer_email = userEmail ord,
                  customer_phone = ph\<rparr>,
      return_url = FRONTEND_URL @ ''/payment-success?order_id='' @ orderId\<rparr>"

definition create_cashfree_order_handler ::
  "string \<Rightarrow> pg_client \<Rightarrow> oid \<Rightarrow> user_claims \<Rightarrow> database \<Rightarrow> outcome" where
  "create_cashfree_order_handler FRONTEND_URL pgAxios orderId user st =
     (case orders st orderId of
        None \<Rightarrow> reply st 404 [(''success'', JBool False), (''message'', JStr ''Order not found'')]
      | Some ord \<Rightarrow>
          if paymentMethod ord \<noteq> ONLINE then
            reply st 400 [(''success'', JBool False), (''message'', JStr ''Invalid payment method'')]
          else (case phone (shippingAddress ord) of
            None \<Rightarrow>
              reply st 400 [(''success'', JBool False), (''message'', JStr ''Invalid phone number'')]
          | Some ph \<Rightarrow>
              if ph = [] \<or> length ph \<noteq> 10 then
                reply st 400 [(''success'', JBool False), (''message'', JStr ''Invalid phone number'')]
              else
                (let pl = cashfree_payload FRONTEND_URL orderId ord ph
                 in case post pgAxios ''/checkout/orders'' pl of
                      Rejected rsp msg \<Rightarrow>
                        \<lparr>res = Response 500 [(''success'', JBool False),
                                             (''cashfreeError'', JData (response_data rsp))],
                         store = st,
                         calls = [Post ''/checkout/orders'' pl],
                         logs = [(''CASHFREE ERROR STATUS:'', JNum (response_status rsp)),
                                 (''CASHFREE ERROR DATA:'', JData (response_data rsp)),
                                 (''CASHFREE MESSAGE:'', JStr msg)]\<rparr>
                    | Resolved data \<Rightarrow>
                        if falsy (field data ''payment_session_id'') then
                          \<lparr>res = Response 500 [(''success'', JBool False),
                                               (''message'', JStr ''Failed to create Cashfree payment session''),
                                               (''raw'', JData data)],
                           store = st,
                           calls = [Post ''/checkout/orders'' pl],
                           logs = []\<rparr>
                        else
                          \<lparr>res = Response 200 [(''success'', JBool True),
                                               (''payment_session_id'', JField (field data ''payment_session_id'')),
                                               (''order_id'', JField (field data ''order_id''))],
                           store = st,
                           calls = [Post ''/checkout/orders'' pl],
                           logs = []\<rparr>)))"

definition create_cashfree_order ::
  "credential \<Rightarrow> string \<Rightarrow> pg_client \<Rightarrow> oid \<Rightarrow> database \<Rightarrow> outcome" where
  "create_cashfree_order cred FRONTEND_URL pgAxios orderId =
     authenticateToken cred (create_cashfree_order_handler FRONTEND_URL pgAxios orderId)"

text \<open>The route as the client calls it. \<^verbatim>\<open>req.body.orderId\<close> is a string of the
  client's, and \<^verbatim>\<open>Order.findById\<close> casts it to an ObjectId before it looks anything up.
  \<open>castObjectId\<close> is that cast, Mongoose's own: the ObjectId the string denotes, or
  \<open>None\<close> where the cast throws a CastError. The error is thrown inside the \<^verbatim>\<open>try\<close>,
  so the \<^verbatim>\<open>catch\<close> of the route answers it: an error without \<^verbatim>\<open>response\<close>.\<close>

definition post_create_cashfree_order ::
  "(string \<Rightarrow> oid option) \<Rightarrow> credential \<Rightarrow> string \<Rightarrow> pg_client \<Rightarrow> string \<Rightarrow> database
     \<Rightarrow> outcome" where
  "post_create_cashfree_order castObjectId cred FRONTEND_URL pgAxios orderId =
     authenticateToken cred
       (\<lambda>user st.
          case castObjectId orderId of
            None \<Rightarrow>
              \<lparr>res = Response 500 [(''success'', JBool False), (''cashfreeError'', JData None)],
               store = st,
               calls = [],
               logs = [(''CASHFREE ERROR STATUS:'', JNum None),
                       (''CASHFREE ERROR DATA:'', JData None),
                       (''CASHFREE MESSAGE:'', JMessage CastError)]\<rparr>
          | Some i \<Rightarrow> create_cashfree_order_handler FRONTEND_URL pgAxios i user st)"

subsection \<open>POST /verify-payment\<close>

text \<open>Reading \<^verbatim>\<open>response.data.order_status\<close> throws a TypeError when the reply has no
  body; the \<^verbatim>\<open>catch\<close> logs \<^verbatim>\<open>err.response?.data || err.message\<close>.\<close>

definition verify_payment_handler ::
  "pg_client \<Rightarrow> oid \<Rightarrow> user_claims \<Rightarrow> database \<Rightarrow> outcome" where
  "verify_payment_handler pgAxios orderId user st =
     (case get pgAxios (''/orders/'' @ orderId) of
        Rejected rsp msg \<Rightarrow>
          \<lparr>res = Response 500 [(''success'', JBool False)],
           store = st,
           calls = [Get (''/orders/'' @ orderId)],
           logs = [(''Verify Error:'',
                    (case response_data rsp of None \<Rightarrow> JStr msg | Some d \<Rightarrow> JData (Some d)))]\<rparr>
      | Resolved data \<Rightarrow>
          (case data of
             None \<Rightarrow>
               \<lparr>res = Response 500 [(''success'', JBool False)],
                store = st,
                calls = [Get (''/orders/'' @ orderId)],
                logs = [(''Verify Error:'', JMessage TypeError)]\<rparr>
           | Some d \<Rightarrow>
               if map_of d ''order_status'' = Some ''PAID'' then
                 \<lparr>res = Response 200 [(''success'', JBool True)],
                  store = findByIdAndUpdate orderId
                            (\<lambda>ord. ord\<lparr>paymentStatus := PAID, status := ''Confirmed''\<rparr>) st,
                  calls = [Get (''/orders/'' @ orderId)],
                  logs = []\<rparr>
               else
                 \<lparr>res = Response 200 [(''success'', JBool False)],
                  store = st,
                  calls = [Get (''/orders/'' @ orderId)],
                  logs = []\<rparr>))"

definition verify_payment ::
  "credential \<Rightarrow> pg_client \<Rightarrow> oid \<Rightarrow> database \<Rightarrow> outcome" where
  "verify_payment cred pgAxios orderId = authenticateToken cred (verify_payment_handler pgAxios orderId)"

text \<open>The status the gateway reports for an order: \<^verbatim>\<open>order_status\<close> in the body of the
  reply to \<^verbatim>\<open>GET /orders/<orderId>\<close>, when the call resolves with a body that has one.\<close>

definition reported_status :: "pg_client \<Rightarrow> oid \<Rightarrow> string option" where
  "reported_status pgAxios orderId =
     (case get pgAxios (''/orders/'' @ orderId) of
        Rejected rsp msg \<Rightarrow> None
      | Resolved data \<Rightarrow> field data ''order_status'')"

subsection \<open>PUT /admin/orders/:id\<close>

definition update_order_handler :: "oid \<Rightarrow> string \<Rightarrow> database \<Rightarrow> outcome" where
  "update_order_handler i new_status st =
     reply (findByIdAndUpdate i (\<lambda>ord. ord\<lparr>status := new_status\<rparr>) st) 200
       [(''success'', JBool True)]"

definition update_order :: "credential \<Rightarrow> oid \<Rightarrow> string \<Rightarrow> database \<Rightarrow> outcome" where
  "update_order cred i new_status =
     authenticateToken cred (\<lambda>user. requireAdmin user (update_order_handler i new_status))"

subsection \<open>Sequences of requests\<close>

text \<open>A request carries what the server reads while it serves it: the credential, the
  body, the ObjectId and the time the new document gets, and the gateway as it answers
  during that request.\<close>

datatype request =
    PlaceOrder credential oid nat place_body
  | CreateCashfreeOrder credential string pg_client oid
  | VerifyPayment credential pg_client oid
  | UpdateOrder credential oid string

fun handle :: "request \<Rightarrow> database \<Rightarrow> outcome" where
  "handle (PlaceOrder cred newId now body) st = placeorder cred newId now body st"
| "handle (CreateCashfreeOrder cred url pgAxios orderId) st =
     create_cashfree_order cred url pgAxios orderId st"
| "handle (VerifyPayment cred pgAxios orderId) st = verify_payment cred pgAxios orderId st"
| "handle (UpdateOrder cred i new_status) st = update_order cred i new_status st"

fun run :: "request list \<Rightarrow> database \<Rightarrow> database" where
  "run [] st = st"
| "run (r # rs) st = run rs (store (handle r st))"

text \<open>The payment status of the order stored under an id, if there is one.\<close>

definition payment_status_of :: "database \<Rightarrow> oid \<Rightarrow> payment_status option" where
  "payment_status_of st i = map_option paymentStatus (orders st i)"

subsection \<open>The phone format the specification asks for\<close>

text \<open>The specification's precondition on \<^verbatim>\<open>shippingAddress.phone\<close>, in its words:
  exactly 10 digits. The route itself compares the length only.\<close>

definition is_digit :: "char \<Rightarrow> bool" where
  "is_digit c = (c \<in> set ''0123456789'')"

definition exactly_10_digits :: "string \<Rightarrow> bool" where
  "exactly_10_digits ph = (length ph = 10 \<and> list_all is_digit ph)"

subsection \<open>Sample data\<close>

text \<open>Two callers, the order of the scenario in the specification (2 at 100 and 1 at 50,
  cash on delivery), an order with returns and a free line, stored orders that differ in
  their phone only, and gateways that answer in the ways the routes distinguish.\<close>

definition alice :: user_claims where
  "alice = \<lparr>username = ''alice'', email = ''alice@example.com'', role = ''user''\<rparr>"

definition bob :: user_claims where
  "bob = \<lparr>username = ''bob'', email = ''bob@example.com'', role = ''admin''\<rparr>"

definition line :: "number \<Rightarrow> number \<Rightarrow> order_item" where
  "line q p = \<lparr>productId = None, name = None, quantity = q, price = p, image_url = None\<rparr>"

definition home :: "string \<Rightarrow> shipping_address" where
  "home ph = \<lparr>addr_name = Some ''Alice'', address = Some ''1 Main Road'', city = Some ''Pune'',
               state = Some ''MH'', zip_code = Some ''411001'', phone = Some ph\<rparr>"

definition cod_body :: place_body where
  "cod_body = \<lparr>body_items = Some [line (Finite 2) (Finite 100), line (Finite 1) (Finite 50)],
                body_address = home ''9876543210'',
                body_paymentMethod = Some ''COD'', body_other = [(''totalAmount'', ''1'')]\<rparr>"





definition online_order :: "string \<Rightarrow> payment_status \<Rightarrow> order" where
  "online_order ph ps = \<lparr>userEmail = ''alice@example.com'',
                          items = [line (Finite 2) (Finite 100), line (Finite 1) (Finite 50)],
                          totalAmount = Finite 250, shippingAddress = home ph, paymentMethod = ONLINE,
                          paymentStatus = ps, status = ''Processing'', createdAt = 0\<rparr>"

definition one_order_db :: "string \<Rightarrow> payment_status \<Rightarrow> database" where
  "one_order_db ph ps = \<lparr>orders = [''o1'' \<mapsto> online_order ph ps], products = []\<rparr>"

text \<open>A cast that takes the strings of 24 hexadecimal digits (lower case) for the
  ObjectIds they write, and a database whose one order is stored under such an id.\<close>

definition hex24 :: "string \<Rightarrow> oid option" where
  "hex24 s = (if length s = 24 \<and> list_all (\<lambda>c. c \<in> set ''0123456789abcdef'') s
              then Some s else None)"

definition hex_order_db :: "string \<Rightarrow> payment_status \<Rightarrow> database" where
  "hex_order_db ph ps =
     \<lparr>orders = [''64b7f0c2a1d3e4f5a6b7c8d9'' \<mapsto> online_order ph ps], products = []\<rparr>"

definition gateway_paid :: pg_client where
  "gateway_paid =
     \<lparr>post = (\<lambda>path pl. Resolved (Some [(''payment_session_id'', ''session_1''),
                                           (''order_id'', order_id pl)])),
      get = (\<lambda>path. Resolved (Some [(''order_status'', ''PAID'')]))\<rparr>"

definition gateway_active :: pg_client where
  "gateway_active =
     \<lparr>post = (\<lambda>path pl. Resolved (Some [(''order_id'', order_id pl)])),
      get = (\<lambda>path. Resolved (Some [(''order_status'', ''ACTIVE'')]))\<rparr>"

definition gateway_rejecting :: "nat \<Rightarrow> pg_client" where
  "gateway_rejecting code =
     \<lparr>post = (\<lambda>path pl. Rejected (Some (code, Some [(''message'', ''request failed'')]))
                               ''Request failed''),
      get = (\<lambda>path. Rejected (Some (code, Some [(''message'', ''request failed'')]))
                            ''Request failed'')\<rparr>"

section \<open>Properties\<close>

subsection \<open>Rounding\<close>





text \<open>\<open>exponent\<close> is the binary exponent, and a finite result of \<open>round_double\<close>
  is within half a spacing of the argument.\<close>

lemma pow2_nonneg_exp: "0 \<le> k \<Longrightarrow> pow2 k = 2 ^ nat k"
  by (simp add: pow2_def)

lemma pow2_neg_exp: "k \<le> 0 \<Longrightarrow> pow2 k = 1 / 2 ^ nat (- k)"
  by (cases "k = 0") (simp_all add: pow2_def)

lemma exponent_bounds:
  assumes "0 < a"
  shows "pow2 (exponent a) \<le> a \<and> a < pow2 (exponent a + 1)"
proof (cases "1 \<le> a")
  case True
  define n where "n = \<lfloor>a\<rfloor>"
  from True have n: "1 \<le> n"
    by (simp add: n_def)
  then have pos: "0 < n" by simp
  from bitlen_bounds [OF pos] have lo: "2 ^ nat (bitlen n - 1) \<le> n" and hi: "n < 2 ^ nat (bitlen n)"
    by simp_all
  have b: "1 \<le> bitlen n"
    using pos bitlen_eq_zero_iff [of n] bitlen_nonneg [of n] by linarith
  have e: "exponent a = bitlen n - 1"
    using True by (simp add: exponent_def n_def)
  have "(2::rat) ^ nat (bitlen n - 1) = of_int (2 ^ nat (bitlen n - 1))"
    by simp
  also have "\<dots> \<le> of_int n"
    using lo by (simp only: of_int_le_iff)
  also have "\<dots> \<le> a"
    by (simp add: n_def)
  finally have low: "pow2 (exponent a) \<le> a"
    using b by (simp add: e pow2_nonneg_exp)
  from hi have "n + 1 \<le> 2 ^ nat (bitlen n)"
    by simp
  then have "(of_int (n + 1) :: rat) \<le> of_int (2 ^ nat (bitlen n))"
    by (simp only: of_int_le_iff)
  moreover have "a < of_int (n + 1)"
    using floor_correct [of a] by (simp add: n_def)
  ultimately have "a < 2 ^ nat (bitlen n)"
    by simp
  then have "a < pow2 (exponent a + 1)"
    using b by (simp add: e pow2_nonneg_exp)
  with low show ?thesis ..
next
  case False
  define c where "c = \<lceil>1 / a\<rceil>"
  define k where "k = bitlen (c - 1)"
  from False assms have y: "1 < 1 / a"
    by simp
  then have c: "2 \<le> c"
    by (simp add: c_def le_ceiling_iff)
  then have pos: "0 < c - 1" by simp
  from bitlen_bounds [OF pos] have lo: "2 ^ nat (k - 1) \<le> c - 1" and hi: "c - 1 < 2 ^ nat k"
    by (simp_all add: k_def)
  have k: "1 \<le> k"
    using pos bitlen_eq_zero_iff [of "c - 1"] bitlen_nonneg [of "c - 1"] by (simp add: k_def)
  have e: "exponent a = - k"
    using False by (simp add: exponent_def c_def k_def)
  from hi have "c \<le> 2 ^ nat k"
    by simp
  then have "(of_int c :: rat) \<le> of_int (2 ^ nat k)"
    by (simp only: of_int_le_iff)
  then have "(of_int c :: rat) \<le> 2 ^ nat k"
    by simp
  moreover have "1 / a \<le> of_int c"
    by (simp add: c_def)
  ultimately have "1 / a \<le> 2 ^ nat k"
    by (rule order_trans [rotated])
  with assms have "1 / 2 ^ nat k \<le> a"
    by (simp add: field_simps)
  then have low: "pow2 (exponent a) \<le> a"
    using k by (simp add: e pow2_neg_exp)
  have "(of_int (2 ^ nat (k - 1)) :: rat) \<le> of_int (c - 1)"
    using lo by (simp only: of_int_le_iff)
  then have "(2::rat) ^ nat (k - 1) \<le> of_int (c - 1)"
    by simp
  moreover have "of_int (c - 1) < 1 / a"
    using less_ceiling_iff [of "c - 1" "1 / a"] by (simp add: c_def)
  ultimately have "2 ^ nat (k - 1) < 1 / a"
    by (rule le_less_trans)
  with assms have "a < 1 / 2 ^ nat (k - 1)"
    by (simp add: field_simps)
  moreover have "pow2 (- k + 1) = 1 / 2 ^ nat (k - 1)"
    using k pow2_neg_exp [of "- k + 1"] by simp
  ultimately have "a < pow2 (exponent a + 1)"
    by (simp add: e)
  with low show ?thesis ..
qed


lemma pow2_pos: "0 < pow2 k"
  by (simp add: pow2_def)

lemma round_half_even_close: "\<bar>of_int (round_half_even x) - x\<bar> \<le> 1 / 2"
  using floor_correct [of x]
  by (auto simp: round_half_even_def Let_def abs_le_iff)

text \<open>A finite result of \<open>round_double\<close> is within half a spacing of the argument.\<close>

lemma round_double_close:
  assumes "round_double x = Finite v"
  shows "\<bar>v - x\<bar> \<le> pow2 (max (exponent \<bar>x\<bar>) (- 1022) - 52) / 2"
proof (cases "x = 0")
  case True
  with assms pow2_pos [of "max (exponent \<bar>x\<bar>) (- 1022) - 52"] show ?thesis
    by (simp add: round_double_def)
next
  case False
  define q where "q = max (exponent \<bar>x\<bar>) (- 1022) - 52"
  define m where "m = round_half_even (\<bar>x\<bar> / pow2 q)"
  from assms False have v: "v = (if x < 0 then - (of_int m * pow2 q) else of_int m * pow2 q)"
    by (simp add: round_double_def Let_def q_def m_def split: if_splits)
  have "of_int m * pow2 q - \<bar>x\<bar> = (of_int m - \<bar>x\<bar> / pow2 q) * pow2 q"
    using pow2_pos [of q] by (simp add: field_simps)
  then have "\<bar>of_int m * pow2 q - \<bar>x\<bar>\<bar> = \<bar>of_int m - \<bar>x\<bar> / pow2 q\<bar> * \<bar>pow2 q\<bar>"
    by (simp only: abs_mult)
  also have "\<dots> = \<bar>of_int m - \<bar>x\<bar> / pow2 q\<bar> * pow2 q"
    using pow2_pos [of q] by simp
  also have "\<dots> \<le> 1 / 2 * pow2 q"
    using round_half_even_close [of "\<bar>x\<bar> / pow2 q"] pow2_pos [of q]
    by (intro mult_right_mono) (simp_all add: m_def)
  finally have "\<bar>of_int m * pow2 q - \<bar>x\<bar>\<bar> \<le> pow2 q / 2"
    by simp
  moreover have "\<bar>v - x\<bar> = \<bar>of_int m * pow2 q - \<bar>x\<bar>\<bar>"
    using v by (cases "x < 0") (simp_all add: abs_minus_commute)
  ultimately show ?thesis
    by (simp add: q_def)
qed





subsection \<open>The total of an item list\<close>







subsection \<open>Helper lemmas\<close>



lemma orders_placeorder_handler:
  "orders (store (placeorder_handler newId now body user st)) i = orders st i
   \<or> (orders st i = None \<and> i = newId
      \<and> map_option paymentStatus (orders (store (placeorder_handler newId now body user st)) i)
          = Some PENDING)"
  by (simp add: placeorder_handler_def save_def reply_def Let_def
      split: option.splits)

lemma store_create_cashfree_order_handler:
  "store (create_cashfree_order_handler url pg i user st) = st"
  by (simp add: create_cashfree_order_handler_def reply_def Let_def
      split: option.splits axios_result.splits)

lemma verify_payment_handler_not_paid:
  "reported_status pg i \<noteq> Some ''PAID'' \<Longrightarrow>
     store (verify_payment_handler pg i user st) = st
     \<and> json (res (verify_payment_handler pg i user st)) = [(''success'', JBool False)]"
  by (auto simp: verify_payment_handler_def reported_status_def field_def
      split: axios_result.splits option.splits)

lemma verify_payment_handler_paid:
  "reported_status pg i = Some ''PAID'' \<Longrightarrow>
     verify_payment_handler pg i user st =
       \<lparr>res = Response 200 [(''success'', JBool True)],
        store = findByIdAndUpdate i (\<lambda>ord. ord\<lparr>paymentStatus := PAID, status := ''Confirmed''\<rparr>) st,
        calls = [Get (''/orders/'' @ i)], logs = []\<rparr>"
  by (auto simp: verify_payment_handler_def reported_status_def field_def
      split: axios_result.splits option.splits)

lemma payment_status_of_findByIdAndUpdate:
  "payment_status_of (findByIdAndUpdate j upd st) i =
     (if i = j then map_option (\<lambda>ord. paymentStatus (upd ord)) (orders st j)
      else payment_status_of st i)"
  by (simp add: payment_status_of_def findByIdAndUpdate_def split: option.splits)

lemma payment_status_of_SomeD:
  "payment_status_of st i = Some s \<Longrightarrow> \<exists>ord. orders st i = Some ord \<and> paymentStatus ord = s"
  by (auto simp: payment_status_of_def)

subsection \<open>Steps\<close>

lemma placeorder_keeps_paid:
  "payment_status_of st i = Some PAID \<Longrightarrow>
     payment_status_of (store (placeorder cred newId now body st)) i = Some PAID"
proof (cases cred)
  case (ValidToken user)
  assume "payment_status_of st i = Some PAID"
  with orders_placeorder_handler [of newId now body user st i] ValidToken show ?thesis
    by (auto simp: placeorder_def authenticateToken_def payment_status_of_def)
qed (simp_all add: placeorder_def authenticateToken_def reply_def)

lemma handle_keeps_paid:
  "payment_status_of st i = Some PAID \<Longrightarrow>
     payment_status_of (store (handle r st)) i = Some PAID"
proof (cases r)
  case (PlaceOrder cred newId now body)
  then show "payment_status_of st i = Some PAID \<Longrightarrow> ?thesis"
    by (simp add: placeorder_keeps_paid)
next
  case (CreateCashfreeOrder cred url pg j)
  then show "payment_status_of st i = Some PAID \<Longrightarrow> ?thesis"
    by (cases cred)
       (simp_all add: create_cashfree_order_def authenticateToken_def reply_def
          store_create_cashfree_order_handler)
next
  case (VerifyPayment cred pg j)
  then show "payment_status_of st i = Some PAID \<Longrightarrow> ?thesis"
    by (cases cred; cases "reported_status pg j = Some ''PAID''")
       (auto simp: verify_payment_def authenticateToken_def reply_def
          verify_payment_handler_paid verify_payment_handler_not_paid
          payment_status_of_findByIdAndUpdate dest: payment_status_of_SomeD)
next
  case (UpdateOrder cred j s)
  then show "payment_status_of st i = Some PAID \<Longrightarrow> ?thesis"
    by (cases cred)
       (auto simp: update_order_def authenticateToken_def requireAdmin_def reply_def
          update_order_handler_def payment_status_of_findByIdAndUpdate
          dest: payment_status_of_SomeD)
qed

subsection \<open>Placing an order\<close>




subsection \<open>Verifying a payment\<close>

text \<open>C2. \<^verbatim>\<open>POST /verify-payment\<close>: when the gateway reports \<open>PAID\<close> for the order, the
  reply is \<open>success: true\<close> and the stored order, if there is one, gets
  \<open>paymentStatus = PAID\<close> and \<open>status = Confirmed\<close>, nothing else changing; for every
  other answer of the gateway (another status, none, a failed call) the reply is
  \<open>success: false\<close> and the database is the one before the call.\<close>

theorem verify_payment_paid_iff:
  "(reported_status pg i = Some ''PAID'' \<longrightarrow>
      res (verify_payment (ValidToken user) pg i st) = Response 200 [(''success'', JBool True)]
      \<and> products (store (verify_payment (ValidToken user) pg i st)) = products st
      \<and> orders (store (verify_payment (ValidToken user) pg i st)) =
          (case orders st i of
             None \<Rightarrow> orders st
           | Some ord \<Rightarrow> (orders st)(i \<mapsto> ord\<lparr>paymentStatus := PAID, status := ''Confirmed''\<rparr>)))
   \<and> (reported_status pg i \<noteq> Some ''PAID'' \<longrightarrow>
      json (res (verify_payment (ValidToken user) pg i st)) = [(''success'', JBool False)]
      \<and> store (verify_payment (ValidToken user) pg i st) = st)"
  by (auto simp: verify_payment_def authenticateToken_def verify_payment_handler_paid
      verify_payment_handler_not_paid findByIdAndUpdate_def split: option.splits)

theorem verify_payment_paid_iff_witness:
  "res (verify_payment (ValidToken alice) gateway_paid ''o1'' (one_order_db ''9876543210'' PENDING))
     = Response 200 [(''success'', JBool True)]
   \<and> orders (store (verify_payment (ValidToken alice) gateway_paid ''o1''
                       (one_order_db ''9876543210'' PENDING))) ''o1''
     = Some (online_order ''9876543210'' PAID\<lparr>status := ''Confirmed''\<rparr>)
   \<and> json (res (verify_payment (ValidToken alice) gateway_active ''o1''
                    (one_order_db ''9876543210'' PENDING)))
     = [(''success'', JBool False)]
   \<and> store (verify_payment (ValidToken alice) gateway_active ''o1''
               (one_order_db ''9876543210'' PENDING))
     = one_order_db ''9876543210'' PENDING"
proof -
  have paid: "reported_status gateway_paid ''o1'' = Some ''PAID''"
    by (simp add: reported_status_def gateway_paid_def field_def)
  have active: "reported_status gateway_active ''o1'' \<noteq> Some ''PAID''"
    by (simp add: reported_status_def gateway_active_def field_def)
  show ?thesis
    using verify_payment_paid_iff [of gateway_paid "''o1''" alice "one_order_db ''9876543210'' PENDING"]
      verify_payment_paid_iff [of gateway_active "''o1''" alice "one_order_db ''9876543210'' PENDING"]
      paid active
    by (simp add: one_order_db_def online_order_def)
qed

text \<open>C3. When the gateway reports \<open>PAID\<close> for an order, two calls of
  \<^verbatim>\<open>POST /verify-payment\<close> in a row (by any callers) both reply \<open>success: true\<close> with
  status 200, neither reaches the \<^verbatim>\<open>catch\<close> branch (nothing is logged), the second
  leaves the database as the first left it, and the stored order is \<open>PAID\<close> after each.\<close>

theorem verify_payment_idempotent:
  assumes "reported_status pg i = Some ''PAID''"
  shows "res (verify_payment (ValidToken u1) pg i st) = Response 200 [(''success'', JBool True)]
       \<and> res (verify_payment (ValidToken u2) pg i (store (verify_payment (ValidToken u1) pg i st)))
           = Response 200 [(''success'', JBool True)]
       \<and> logs (verify_payment (ValidToken u1) pg i st) = []
       \<and> logs (verify_payment (ValidToken u2) pg i (store (verify_payment (ValidToken u1) pg i st))) = []
       \<and> store (verify_payment (ValidToken u2) pg i (store (verify_payment (ValidToken u1) pg i st)))
           = store (verify_payment (ValidToken u1) pg i st)
       \<and> (orders st i \<noteq> None \<longrightarrow>
             payment_status_of (store (verify_payment (ValidToken u1) pg i st)) i = Some PAID
           \<and> payment_status_of
                (store (verify_payment (ValidToken u2) pg i (store (verify_payment (ValidToken u1) pg i st)))) i
               = Some PAID)"
  using assms
  by (auto simp: verify_payment_def authenticateToken_def verify_payment_handler_paid
      findByIdAndUpdate_def payment_status_of_def split: option.splits)

theorem verify_payment_idempotent_witness:
  "payment_status_of
     (store (verify_payment (ValidToken bob) gateway_paid ''o1''
        (store (verify_payment (ValidToken alice) gateway_paid ''o1''
           (one_order_db ''9876543210'' PENDING))))) ''o1'' = Some PAID
   \<and> res (verify_payment (ValidToken bob) gateway_paid ''o1''
        (store (verify_payment (ValidToken alice) gateway_paid ''o1''
           (one_order_db ''9876543210'' PENDING))))
       = Response 200 [(''success'', JBool True)]"
proof -
  have paid: "reported_status gateway_paid ''o1'' = Some ''PAID''"
    by (simp add: reported_status_def gateway_paid_def field_def)
  have "orders (one_order_db ''9876543210'' PENDING) ''o1'' \<noteq> None"
    by (simp add: one_order_db_def)
  with verify_payment_idempotent [OF paid, of alice "one_order_db ''9876543210'' PENDING" bob]
  show ?thesis by blast
qed

subsection \<open>The payment status over sequences of requests\<close>

lemma payment_status_of_not_paid:
  "orders st i = Some ord \<Longrightarrow> payment_status_of st i \<noteq> Some PAID \<Longrightarrow>
     payment_status_of st i = Some PENDING"
  by (cases "paymentStatus ord") (simp_all add: payment_status_of_def)

lemma handle_becomes_paid:
  assumes "payment_status_of (store (handle r st)) i = Some PAID"
    and "payment_status_of st i \<noteq> Some PAID"
  shows "payment_status_of st i = Some PENDING
       \<and> (\<exists>user pg. r = VerifyPayment (ValidToken user) pg i \<and> reported_status pg i = Some ''PAID'')"
proof (cases r)
  case (PlaceOrder cred newId now body)
  show ?thesis
  proof (cases cred)
    case (ValidToken user)
    with assms PlaceOrder orders_placeorder_handler [of newId now body user st i] show ?thesis
      by (auto simp: placeorder_def authenticateToken_def payment_status_of_def)
  qed (use assms PlaceOrder in \<open>simp_all add: placeorder_def authenticateToken_def reply_def\<close>)
next
  case (CreateCashfreeOrder cred url pg j)
  with assms show ?thesis
    by (cases cred)
       (simp_all add: create_cashfree_order_def authenticateToken_def reply_def
          store_create_cashfree_order_handler)
next
  case (VerifyPayment cred pg j)
  with assms show ?thesis
    by (cases cred; cases "reported_status pg j = Some ''PAID''")
       (auto simp: verify_payment_def authenticateToken_def reply_def
          verify_payment_handler_paid verify_payment_handler_not_paid
          payment_status_of_findByIdAndUpdate split: if_splits
          intro: payment_status_of_not_paid)
next
  case (UpdateOrder cred j s)
  with assms have False
    by (cases cred)
       (auto simp: update_order_def authenticateToken_def requireAdmin_def reply_def
          update_order_handler_def payment_status_of_def findByIdAndUpdate_def
          split: if_splits option.splits)
  then show ?thesis ..
qed

lemma run_keeps_paid:
  "payment_status_of st i = Some PAID \<Longrightarrow> payment_status_of (run rs st) i = Some PAID"
  by (induction rs arbitrary: st) (simp_all add: handle_keeps_paid)

lemma run_becomes_paid:
  "payment_status_of (run rs st) i = Some PAID \<Longrightarrow> payment_status_of st i \<noteq> Some PAID \<Longrightarrow>
     \<exists>user pg. VerifyPayment (ValidToken user) pg i \<in> set rs \<and> reported_status pg i = Some ''PAID''"
proof (induction rs arbitrary: st)
  case Nil
  then show ?case by simp
next
  case (Cons r rs)
  show ?case
  proof (cases "payment_status_of (store (handle r st)) i = Some PAID")
    case True
    with handle_becomes_paid [OF True Cons.prems(2)] show ?thesis by auto
  next
    case False
    with Cons.IH [of "store (handle r st)"] Cons.prems(1) show ?thesis by auto
  qed
qed


text \<open>C4. Over every sequence of the four requests (place an order, create a payment
  session, verify a payment, set the fulfilment status), whatever the credentials, bodies
  and gateway answers: an order that is \<open>PAID\<close> stays \<open>PAID\<close>; an order that is
  \<open>PAID\<close> at the end and was not at the start has seen a verification by an
  authenticated caller for which the gateway reported \<open>PAID\<close>; and the single request
  after which an order is \<open>PAID\<close> that was not before is such a verification of an
  order stored as \<open>PENDING\<close>.\<close>

theorem payment_status_monotone:
  "(payment_status_of st i = Some PAID \<longrightarrow> payment_status_of (run rs st) i = Some PAID)
   \<and> (payment_status_of st i \<noteq> Some PAID \<and> payment_status_of (run rs st) i = Some PAID \<longrightarrow>
        (\<exists>user pg. VerifyPayment (ValidToken user) pg i \<in> set rs
                   \<and> reported_status pg i = Some ''PAID''))
   \<and> (payment_status_of st i \<noteq> Some PAID \<and> payment_status_of (store (handle r st)) i = Some PAID \<longrightarrow>
        payment_status_of st i = Some PENDING
        \<and> (\<exists>user pg. r = VerifyPayment (ValidToken user) pg i
                     \<and> reported_status pg i = Some ''PAID''))"
  using run_keeps_paid [of st i rs] run_becomes_paid [of rs st i] handle_becomes_paid [of r st i]
  by blast

theorem payment_status_monotone_witness:
  "payment_status_of
     (run [UpdateOrder (ValidToken bob) ''o1'' ''Shipped'',
           VerifyPayment (ValidToken alice) gateway_active ''o1'',
           CreateCashfreeOrder (ValidToken alice) ''https://shop.example'' (gateway_rejecting 500) ''o1'',
           PlaceOrder (ValidToken alice) ''o1'' 7 cod_body]
        (one_order_db ''9876543210'' PAID)) ''o1'' = Some PAID
   \<and> payment_status_of (one_order_db ''9876543210'' PENDING) ''o1'' = Some PENDING
   \<and> payment_status_of
        (store (handle (VerifyPayment (ValidToken alice) gateway_paid ''o1'')
                  (one_order_db ''9876543210'' PENDING))) ''o1'' = Some PAID"
proof -
  have "payment_status_of (one_order_db ''9876543210'' PAID) ''o1'' = Some PAID"
    by (simp add: payment_status_of_def one_order_db_def online_order_def)
  moreover have "payment_status_of (one_order_db ''9876543210'' PENDING) ''o1'' \<noteq> Some PAID"
    by (simp add: payment_status_of_def one_order_db_def online_order_def)
  moreover have "payment_status_of
        (store (handle (VerifyPayment (ValidToken alice) gateway_paid ''o1'')
                  (one_order_db ''9876543210'' PENDING))) ''o1'' = Some PAID"
    by (simp add: payment_status_of_def one_order_db_def online_order_def verify_payment_def
        authenticateToken_def verify_payment_handler_def gateway_paid_def findByIdAndUpdate_def)
  ultimately show ?thesis
    using payment_status_monotone [of "one_order_db ''9876543210'' PAID" "''o1''"
        "[UpdateOrder (ValidToken bob) ''o1'' ''Shipped'',
          VerifyPayment (ValidToken alice) gateway_active ''o1'',
          CreateCashfreeOrder (ValidToken alice) ''https://shop.example'' (gateway_rejecting 500) ''o1'',
          PlaceOrder (ValidToken alice) ''o1'' 7 cod_body]"]
      payment_status_monotone [of "one_order_db ''9876543210'' PENDING" "''o1''" "[]"
        "VerifyPayment (ValidToken alice) gateway_paid ''o1''"]
    by blast
qed

subsection \<open>Creating a payment session: the branches of the route\<close>

lemma create_cashfree_order_handler_gateway:
  assumes "orders st i = Some ord" and "paymentMethod ord = ONLINE"
    and "phone (shippingAddress ord) = Some ph" and "length ph = 10"
  shows "create_cashfree_order_handler url pg i user st =
           (case post pg ''/checkout/orders'' (cashfree_payload url i ord ph) of
              Rejected rsp msg \<Rightarrow>
                \<lparr>res = Response 500 [(''success'', JBool False),
                                     (''cashfreeError'', JData (response_data rsp))],
                 store = st,
                 calls = [Post ''/checkout/orders'' (cashfree_payload url i ord ph)],
                 logs = [(''CASHFREE ERROR STATUS:'', JNum (response_status rsp)),
                         (''CASHFREE ERROR DATA:'', JData (response_data rsp)),
                         (''CASHFREE MESSAGE:'', JStr msg)]\<rparr>
            | Resolved data \<Rightarrow>
                if falsy (field data ''payment_session_id'') then
                  \<lparr>res = Response 500 [(''success'', JBool False),
                                       (''message'', JStr ''Failed to create Cashfree payment session''),
                                       (''raw'', JData data)],
                   store = st,
                   calls = [Post ''/checkout/orders'' (cashfree_payload url i ord ph)],
                   logs = []\<rparr>
                else
                  \<lparr>res = Response 200 [(''success'', JBool True),
                                       (''payment_session_id'', JField (field data ''payment_session_id'')),
                                       (''order_id'', JField (field data ''order_id''))],
                   store = st,
                   calls = [Post ''/checkout/orders'' (cashfree_payload url i ord ph)],
                   logs = []\<rparr>)"
  using assms by (auto simp: create_cashfree_order_handler_def Let_def)

lemma create_cashfree_order_handler_phone:
  assumes "orders st i = Some ord" and "paymentMethod ord = ONLINE"
    and "\<forall>ph. phone (shippingAddress ord) = Some ph \<longrightarrow> length ph \<noteq> 10"
  shows "create_cashfree_order_handler url pg i user st =
           reply st 400 [(''success'', JBool False), (''message'', JStr ''Invalid phone number'')]"
  using assms by (auto simp: create_cashfree_order_handler_def split: option.splits)

lemma calls_create_cashfree_order_handler:
  "length (calls (create_cashfree_order_handler url pg i user st)) \<le> 1"
  by (simp add: create_cashfree_order_handler_def reply_def Let_def
      split: option.splits axios_result.splits)


lemma create_cashfree_order_handler_success_only:
  assumes "status_code (res (create_cashfree_order_handler url pg i user st)) = 200"
  shows "\<exists>ord ph data. orders st i = Some ord \<and> paymentMethod ord = ONLINE
           \<and> phone (shippingAddress ord) = Some ph \<and> length ph = 10
           \<and> post pg ''/checkout/orders'' (cashfree_payload url i ord ph) = Resolved data
           \<and> \<not> falsy (field data ''payment_session_id'')"
  using assms
  by (auto simp: create_cashfree_order_handler_def reply_def Let_def
      split: option.splits axios_result.splits if_splits)

subsection \<open>Creating a payment session\<close>

text \<open>C5, as stated, fails where it says that the failure wraps the upstream status
  code: when the gateway rejects the call, the reply to the caller is status 500 with the
  upstream body under \<open>cashfreeError\<close> and nothing else, so a gateway that rejects
  with 401 and one that rejects with 503 (same body) give the caller the same reply.\<close>

theorem create_cashfree_order_status_code_counterexample:
  "res (create_cashfree_order (ValidToken alice) ''https://shop.example'' (gateway_rejecting 401) ''o1''
          (one_order_db ''9876543210'' PENDING))
     = Response 500 [(''success'', JBool False),
                     (''cashfreeError'', JData (Some [(''message'', ''request failed'')]))]
   \<and> res (create_cashfree_order (ValidToken alice) ''https://shop.example'' (gateway_rejecting 503) ''o1''
          (one_order_db ''9876543210'' PENDING))
     = res (create_cashfree_order (ValidToken alice) ''https://shop.example'' (gateway_rejecting 401) ''o1''
          (one_order_db ''9876543210'' PENDING))"
  by (simp add: create_cashfree_order_def authenticateToken_def create_cashfree_order_handler_def
      one_order_db_def online_order_def home_def gateway_rejecting_def response_data_def Let_def)

text \<open>The branches of the route once the id is cast.\<close>

lemma create_cashfree_order_branches:
  "(orders st i = None \<longrightarrow>
      create_cashfree_order (ValidToken user) url pg i st =
        \<lparr>res = Response 404 [(''success'', JBool False), (''message'', JStr ''Order not found'')],
         store = st, calls = [], logs = []\<rparr>)
   \<and> (\<forall>ord. orders st i = Some ord \<and> paymentMethod ord \<noteq> ONLINE \<longrightarrow>
      create_cashfree_order (ValidToken user) url pg i st =
        \<lparr>res = Response 400 [(''success'', JBool False), (''message'', JStr ''Invalid payment method'')],
         store = st, calls = [], logs = []\<rparr>)
   \<and> (\<forall>ord. orders st i = Some ord \<and> paymentMethod ord = ONLINE
            \<and> (\<forall>ph. phone (shippingAddress ord) = Some ph \<longrightarrow> length ph \<noteq> 10) \<longrightarrow>
      create_cashfree_order (ValidToken user) url pg i st =
        \<lparr>res = Response 400 [(''success'', JBool False), (''message'', JStr ''Invalid phone number'')],
         store = st, calls = [], logs = []\<rparr>)
   \<and> (\<forall>ord ph rsp msg.
        orders st i = Some ord \<and> paymentMethod ord = ONLINE
        \<and> phone (shippingAddress ord) = Some ph \<and> length ph = 10
        \<and> post pg ''/checkout/orders'' (cashfree_payload url i ord ph) = Rejected rsp msg \<longrightarrow>
      create_cashfree_order (ValidToken user) url pg i st =
        \<lparr>res = Response 500 [(''success'', JBool False),
                             (''cashfreeError'', JData (response_data rsp))],
         store = st,
         calls = [Post ''/checkout/orders'' (cashfree_payload url i ord ph)],
         logs = [(''CASHFREE ERROR STATUS:'', JNum (response_status rsp)),
                 (''CASHFREE ERROR DATA:'', JData (response_data rsp)),
                 (''CASHFREE MESSAGE:'', JStr msg)]\<rparr>)
   \<and> (\<forall>ord ph data.
        orders st i = Some ord \<and> paymentMethod ord = ONLINE
        \<and> phone (shippingAddress ord) = Some ph \<and> length ph = 10
        \<and> post pg ''/checkout/orders'' (cashfree_payload url i ord ph) = Resolved data
        \<and> falsy (field data ''payment_session_id'') \<longrightarrow>
      create_cashfree_order (ValidToken user) url pg i st =
        \<lparr>res = Response 500 [(''success'', JBool False),
                             (''message'', JStr ''Failed to create Cashfree payment session''),
                             (''raw'', JData data)],
         store = st,
         calls = [Post ''/checkout/orders'' (cashfree_payload url i ord ph)],
         logs = []\<rparr>)
   \<and> length (calls (create_cashfree_order (ValidToken user) url pg i st)) \<le> 1"
proof -
  have "orders st i = None \<Longrightarrow>
      create_cashfree_order_handler url pg i user st =
        \<lparr>res = Response 404 [(''success'', JBool False), (''message'', JStr ''Order not found'')],
         store = st, calls = [], logs = []\<rparr>"
    by (simp add: create_cashfree_order_handler_def reply_def)
  moreover have "orders st i = Some ord \<Longrightarrow> paymentMethod ord \<noteq> ONLINE \<Longrightarrow>
      create_cashfree_order_handler url pg i user st =
        \<lparr>res = Response 400 [(''success'', JBool False), (''message'', JStr ''Invalid payment method'')],
         store = st, calls = [], logs = []\<rparr>" for ord
    by (simp add: create_cashfree_order_handler_def reply_def)
  moreover note calls_create_cashfree_order_handler [of url pg i user st]
  ultimately show ?thesis
    by (simp add: create_cashfree_order_def authenticateToken_def
        create_cashfree_order_handler_phone create_cashfree_order_handler_gateway reply_def)
qed

lemma post_create_cashfree_order_cast:
  "post_create_cashfree_order castObjectId (ValidToken user) url pg orderId st =
     (case castObjectId orderId of
        None \<Rightarrow>
          \<lparr>res = Response 500 [(''success'', JBool False), (''cashfreeError'', JData None)],
           store = st, calls = [],
           logs = [(''CASHFREE ERROR STATUS:'', JNum None),
                   (''CASHFREE ERROR DATA:'', JData None),
                   (''CASHFREE MESSAGE:'', JMessage CastError)]\<rparr>
      | Some i \<Rightarrow> create_cashfree_order (ValidToken user) url pg i st)"
  by (simp add: post_create_cashfree_order_def create_cashfree_order_def authenticateToken_def
      split: option.splits)

text \<open>C5, amended. \<^verbatim>\<open>POST /create-cashfree-order\<close>, for the \<^verbatim>\<open>orderId\<close> string of the
  request: replies 500 from the \<^verbatim>\<open>catch\<close>, with no \<open>cashfreeError\<close>, when the string
  is not an ObjectId; 404 when it is an ObjectId under which no order is stored; 400 when
  the order's method is not \<open>ONLINE\<close>, and 400 when its phone is missing or not 10
  characters long; in all these cases without a gateway call. It replies 500 carrying
  the upstream body (\<open>cashfreeError\<close>) when the gateway call is rejected, the
  upstream status code going to the error log only; and 500 carrying the body of the
  reply (\<open>raw\<close>) when the reply has no session token. The gateway is called at most
  once.\<close>

theorem create_cashfree_order_failures:
  "(castObjectId orderId = None \<longrightarrow>
      post_create_cashfree_order castObjectId (ValidToken user) url pg orderId st =
        \<lparr>res = Response 500 [(''success'', JBool False), (''cashfreeError'', JData None)],
         store = st, calls = [],
         logs = [(''CASHFREE ERROR STATUS:'', JNum None),
                 (''CASHFREE ERROR DATA:'', JData None),
                 (''CASHFREE MESSAGE:'', JMessage CastError)]\<rparr>)
   \<and> (\<forall>i. castObjectId orderId = Some i \<and> orders st i = None \<longrightarrow>
      post_create_cashfree_order castObjectId (ValidToken user) url pg orderId st =
        \<lparr>res = Response 404 [(''success'', JBool False), (''message'', JStr ''Order not found'')],
         store = st, calls = [], logs = []\<rparr>)
   \<and> (\<forall>i ord. castObjectId orderId = Some i \<and> orders st i = Some ord
            \<and> paymentMethod ord \<noteq> ONLINE \<longrightarrow>
      post_create_cashfree_order castObjectId (ValidToken user) url pg orderId st =
        \<lparr>res = Response 400 [(''success'', JBool False), (''message'', JStr ''Invalid payment method'')],
         store = st, calls = [], logs = []\<rparr>)
   \<and> (\<forall>i ord. castObjectId orderId = Some i \<and> orders st i = Some ord
            \<and> paymentMethod ord = ONLINE
            \<and> (\<forall>ph. phone (shippingAddress ord) = Some ph \<longrightarrow> length ph \<noteq> 10) \<longrightarrow>
      post_create_cashfree_order castObjectId (ValidToken user) url pg orderId st =
        \<lparr>res = Response 400 [(''success'', JBool False), (''message'', JStr ''Invalid phone number'')],
         store = st, calls = [], logs = []\<rparr>)
   \<and> (\<forall>i ord ph rsp msg.
        castObjectId orderId = Some i
        \<and> orders st i = Some ord \<and> paymentMethod ord = ONLINE
        \<and> phone (shippingAddress ord) = Some ph \<and> length ph = 10
        \<and> post pg ''/checkout/orders'' (cashfree_payload url i ord ph) = Rejected rsp msg \<longrightarrow>
      post_create_cashfree_order castObjectId (ValidToken user) url pg orderId st =
        \<lparr>res = Response 500 [(''success'', JBool False),
                             (''cashfreeError'', JData (response_data rsp))],
         store = st,
         calls = [Post ''/checkout/orders'' (cashfree_payload url i ord ph)],
         logs = [(''CASHFREE ERROR STATUS:'', JNum (response_status rsp)),
                 (''CASHFREE ERROR DATA:'', JData (response_data rsp)),
                 (''CASHFREE MESSAGE:'', JStr msg)]\<rparr>)
   \<and> (\<forall>i ord ph data.
        castObjectId orderId = Some i
        \<and> orders st i = Some ord \<and> paymentMethod ord = ONLINE
        \<and> phone (shippingAddress ord) = Some ph \<and> length ph = 10
        \<and> post pg ''/checkout/orders'' (cashfree_payload url i ord ph) = Resolved data
        \<and> falsy (field data ''payment_session_id'') \<longrightarrow>
      post_create_cashfree_order castObjectId (ValidToken user) url pg orderId st =
        \<lparr>res = Response 500 [(''success'', JBool False),
                             (''message'', JStr ''Failed to create Cashfree payment session''),
                             (''raw'', JData data)],
         store = st,
         calls = [Post ''/checkout/orders'' (cashfree_payload url i ord ph)],
         logs = []\<rparr>)
   \<and> length (calls (post_create_cashfree_order castObjectId (ValidToken user) url pg orderId st)) \<le> 1"
proof (cases "castObjectId orderId")
  case None
  then show ?thesis
    by (simp add: post_create_cashfree_order_cast)
next
  case (Some i)
  with create_cashfree_order_branches [of st i user url pg] show ?thesis
    by (simp add: post_create_cashfree_order_cast)
qed

theorem create_cashfree_order_failures_witness:
  "post_create_cashfree_order hex24 (ValidToken alice) ''https://shop.example'' gateway_paid ''o1''
       (hex_order_db ''9876543210'' PENDING)
     = \<lparr>res = Response 500 [(''success'', JBool False), (''cashfreeError'', JData None)],
        store = hex_order_db ''9876543210'' PENDING, calls = [],
        logs = [(''CASHFREE ERROR STATUS:'', JNum None),
                (''CASHFREE ERROR DATA:'', JData None),
                (''CASHFREE MESSAGE:'', JMessage CastError)]\<rparr>
   \<and> res (post_create_cashfree_order hex24 (ValidToken alice) ''https://shop.example'' gateway_paid
          ''64b7f0c2a1d3e4f5a6b7c8da'' (hex_order_db ''9876543210'' PENDING))
     = Response 404 [(''success'', JBool False), (''message'', JStr ''Order not found'')]
   \<and> post_create_cashfree_order hex24 (ValidToken alice) ''https://shop.example'' gateway_paid
          ''64b7f0c2a1d3e4f5a6b7c8d9'' (hex_order_db ''12345'' PENDING)
     = \<lparr>res = Response 400 [(''success'', JBool False), (''message'', JStr ''Invalid phone number'')],
        store = hex_order_db ''12345'' PENDING, calls = [], logs = []\<rparr>
   \<and> logs (post_create_cashfree_order hex24 (ValidToken alice) ''https://shop.example''
           (gateway_rejecting 401) ''64b7f0c2a1d3e4f5a6b7c8d9'' (hex_order_db ''9876543210'' PENDING))
     = [(''CASHFREE ERROR STATUS:'', JNum (Some 401)),
        (''CASHFREE ERROR DATA:'', JData (Some [(''message'', ''request failed'')])),
        (''CASHFREE MESSAGE:'', JStr ''Request failed'')]
   \<and> res (post_create_cashfree_order hex24 (ValidToken alice) ''https://shop.example'' gateway_active
          ''64b7f0c2a1d3e4f5a6b7c8d9'' (hex_order_db ''9876543210'' PENDING))
     = Response 500 [(''success'', JBool False),
                     (''message'', JStr ''Failed to create Cashfree payment session''),
                     (''raw'', JData (Some [(''order_id'', ''64b7f0c2a1d3e4f5a6b7c8d9'')]))]"
proof -
  let ?url = "''https://shop.example''"
  let ?i = "''64b7f0c2a1d3e4f5a6b7c8d9''"
  let ?j = "''64b7f0c2a1d3e4f5a6b7c8da''"
  let ?ord = "online_order ''9876543210'' PENDING"
  have casts: "hex24 ''o1'' = None" "hex24 ?i = Some ?i" "hex24 ?j = Some ?j"
    by (simp_all add: hex24_def)
  have absent: "orders (hex_order_db ''9876543210'' PENDING) ?j = None"
    by (simp add: hex_order_db_def)
  have short: "orders (hex_order_db ''12345'' PENDING) ?i = Some (online_order ''12345'' PENDING)
      \<and> paymentMethod (online_order ''12345'' PENDING) = ONLINE
      \<and> (\<forall>ph. phone (shippingAddress (online_order ''12345'' PENDING)) = Some ph \<longrightarrow> length ph \<noteq> 10)"
    by (simp add: hex_order_db_def online_order_def home_def)
  have stored: "orders (hex_order_db ''9876543210'' PENDING) ?i = Some ?ord
      \<and> paymentMethod ?ord = ONLINE
      \<and> phone (shippingAddress ?ord) = Some ''9876543210'' \<and> length ''9876543210'' = 10"
    by (simp add: hex_order_db_def online_order_def home_def)
  have rejected: "post (gateway_rejecting 401) ''/checkout/orders''
        (cashfree_payload ?url ?i ?ord ''9876543210'')
      = Rejected (Some (401, Some [(''message'', ''request failed'')])) ''Request failed''"
    by (simp add: gateway_rejecting_def)
  have no_token: "post gateway_active ''/checkout/orders''
        (cashfree_payload ?url ?i ?ord ''9876543210'')
      = Resolved (Some [(''order_id'', ?i)])
      \<and> falsy (field (Some [(''order_id'', ?i)]) ''payment_session_id'')"
    by (simp add: gateway_active_def cashfree_payload_def falsy_def field_def)
  show ?thesis
    using create_cashfree_order_failures
        [of hex24 "''o1''" alice ?url gateway_paid "hex_order_db ''9876543210'' PENDING"]
      create_cashfree_order_failures
        [of hex24 ?j alice ?url gateway_paid "hex_order_db ''9876543210'' PENDING"]
      create_cashfree_order_failures
        [of hex24 ?i alice ?url gateway_paid "hex_order_db ''12345'' PENDING"]
      create_cashfree_order_failures
        [of hex24 ?i alice ?url "gateway_rejecting 401" "hex_order_db ''9876543210'' PENDING"]
      create_cashfree_order_failures
        [of hex24 ?i alice ?url gateway_active "hex_order_db ''9876543210'' PENDING"]
      casts absent short stored rejected no_token
    by (simp add: response_status_def response_data_def)
qed

text \<open>C6, as stated, fails: the route compares the length of the phone and nothing
  else, so an \<open>ONLINE\<close> order whose phone is ten letters reaches the gateway.\<close>

theorem create_cashfree_order_letters_counterexample:
  "\<not> exactly_10_digits ''abcdefghij''
   \<and> calls (create_cashfree_order (ValidToken alice) ''https://shop.example'' gateway_paid ''o1''
              (one_order_db ''abcdefghij'' PENDING))
       = [Post ''/checkout/orders''
            (cashfree_payload ''https://shop.example'' ''o1'' (online_order ''abcdefghij'' PENDING)
               ''abcdefghij'')]
   \<and> status_code (res (create_cashfree_order (ValidToken alice) ''https://shop.example'' gateway_paid
                           ''o1'' (one_order_db ''abcdefghij'' PENDING))) = 200"
  by (simp add: exactly_10_digits_def is_digit_def create_cashfree_order_def authenticateToken_def
      create_cashfree_order_handler_def one_order_db_def online_order_def home_def gateway_paid_def
      falsy_def field_def Let_def)

text \<open>C6, amended. For every stored \<open>ONLINE\<close> order: when the phone is missing or its
  length is not 10, the route replies 400 \<open>Invalid phone number\<close> and calls no gateway;
  when the phone has exactly 10 characters (digits or not) the route makes its one call
  to the gateway, with that phone in the payload; and a gateway call is made only then.\<close>

theorem create_cashfree_order_phone_length:
  assumes "orders st i = Some ord" and "paymentMethod ord = ONLINE"
  shows "((\<forall>ph. phone (shippingAddress ord) = Some ph \<longrightarrow> length ph \<noteq> 10) \<longrightarrow>
            create_cashfree_order (ValidToken user) url pg i st =
              \<lparr>res = Response 400 [(''success'', JBool False),
                                   (''message'', JStr ''Invalid phone number'')],
               store = st, calls = [], logs = []\<rparr>)
       \<and> (\<forall>ph. phone (shippingAddress ord) = Some ph \<and> length ph = 10 \<longrightarrow>
            calls (create_cashfree_order (ValidToken user) url pg i st) =
              [Post ''/checkout/orders'' (cashfree_payload url i ord ph)])
       \<and> (calls (create_cashfree_order (ValidToken user) url pg i st) \<noteq> [] \<longrightarrow>
            (\<exists>ph. phone (shippingAddress ord) = Some ph \<and> length ph = 10))"
proof -
  have gateway: "calls (create_cashfree_order_handler url pg i user st) =
      [Post ''/checkout/orders'' (cashfree_payload url i ord ph)]"
    if "phone (shippingAddress ord) = Some ph" and "length ph = 10" for ph
    using create_cashfree_order_handler_gateway [OF assms that, of url pg user]
    by (simp split: axios_result.splits)
  have rejected: "create_cashfree_order_handler url pg i user st =
      \<lparr>res = Response 400 [(''success'', JBool False), (''message'', JStr ''Invalid phone number'')],
       store = st, calls = [], logs = []\<rparr>"
    if "\<forall>ph. phone (shippingAddress ord) = Some ph \<longrightarrow> length ph \<noteq> 10"
    using create_cashfree_order_handler_phone [OF assms that, of url pg user]
    by (simp add: reply_def)
  have only: "\<exists>ph. phone (shippingAddress ord) = Some ph \<and> length ph = 10"
    if made: "calls (create_cashfree_order_handler url pg i user st) \<noteq> []"
  proof (rule ccontr)
    assume "\<not> (\<exists>ph. phone (shippingAddress ord) = Some ph \<and> length ph = 10)"
    then have "\<forall>ph. phone (shippingAddress ord) = Some ph \<longrightarrow> length ph \<noteq> 10"
      by blast
    from rejected [OF this] made show False
      by simp
  qed
  show ?thesis
    using gateway rejected only
    by (simp add: create_cashfree_order_def authenticateToken_def)
qed

theorem create_cashfree_order_phone_length_witness:
  "calls (create_cashfree_order (ValidToken alice) ''https://shop.example'' gateway_paid ''o1''
            (one_order_db ''98765432101'' PENDING)) = []
   \<and> calls (create_cashfree_order (ValidToken alice) ''https://shop.example'' gateway_paid ''o1''
            (one_order_db ''9876543210'' PENDING))
       = [Post ''/checkout/orders''
            (cashfree_payload ''https://shop.example'' ''o1'' (online_order ''9876543210'' PENDING)
               ''9876543210'')]"
proof -
  have long: "orders (one_order_db ''98765432101'' PENDING) ''o1'' = Some (online_order ''98765432101'' PENDING)"
    and "paymentMethod (online_order ''98765432101'' PENDING) = ONLINE"
    and "\<forall>ph. phone (shippingAddress (online_order ''98765432101'' PENDING)) = Some ph \<longrightarrow> length ph \<noteq> 10"
    by (simp_all add: one_order_db_def online_order_def home_def)
  moreover have "orders (one_order_db ''9876543210'' PENDING) ''o1'' = Some (online_order ''9876543210'' PENDING)"
    and "paymentMethod (online_order ''9876543210'' PENDING) = ONLINE"
    and "phone (shippingAddress (online_order ''9876543210'' PENDING)) = Some ''9876543210''"
    and "length ''9876543210'' = 10"
    by (simp_all add: one_order_db_def online_order_def home_def)
  ultimately show ?thesis
    using create_cashfree_order_phone_length
        [of "one_order_db ''98765432101'' PENDING" "''o1''" "online_order ''98765432101'' PENDING"
            alice "''https://shop.example''" gateway_paid]
      create_cashfree_order_phone_length
        [of "one_order_db ''9876543210'' PENDING" "''o1''" "online_order ''9876543210'' PENDING"
            alice "''https://shop.example''" gateway_paid]
    by simp
qed

text \<open>C7. \<^verbatim>\<open>POST /create-cashfree-order\<close> never changes the database. When the gateway
  resolves with a session token, the reply is 200 with that token and the order id the
  gateway returned; and a reply of 200 is given in that case only.\<close>

theorem create_cashfree_order_success_frame:
  "store (create_cashfree_order cred url pg i st) = st
   \<and> (\<forall>user ord ph data.
        cred = ValidToken user
        \<and> orders st i = Some ord \<and> paymentMethod ord = ONLINE
        \<and> phone (shippingAddress ord) = Some ph \<and> length ph = 10
        \<and> post pg ''/checkout/orders'' (cashfree_payload url i ord ph) = Resolved data
        \<and> \<not> falsy (field data ''payment_session_id'') \<longrightarrow>
      res (create_cashfree_order cred url pg i st) =
        Response 200 [(''success'', JBool True),
                      (''payment_session_id'', JField (field data ''payment_session_id'')),
                      (''order_id'', JField (field data ''order_id''))])
   \<and> (status_code (res (create_cashfree_order cred url pg i st)) = 200 \<longrightarrow>
        (\<exists>user ord ph data.
           cred = ValidToken user
           \<and> orders st i = Some ord \<and> paymentMethod ord = ONLINE
           \<and> phone (shippingAddress ord) = Some ph \<and> length ph = 10
           \<and> post pg ''/checkout/orders'' (cashfree_payload url i ord ph) = Resolved data
           \<and> \<not> falsy (field data ''payment_session_id'')))"
proof (cases cred)
  case (ValidToken user)
  have "res (create_cashfree_order_handler url pg i user st) =
        Response 200 [(''success'', JBool True),
                      (''payment_session_id'', JField (field data ''payment_session_id'')),
                      (''order_id'', JField (field data ''order_id''))]"
    if "orders st i = Some ord" and "paymentMethod ord = ONLINE"
      and "phone (shippingAddress ord) = Some ph" and "length ph = 10"
      and "post pg ''/checkout/orders'' (cashfree_payload url i ord ph) = Resolved data"
      and "\<not> falsy (field data ''payment_session_id'')" for ord ph data
    using create_cashfree_order_handler_gateway [OF that(1-4), of url pg user] that(5,6)
    by simp
  with ValidToken create_cashfree_order_handler_success_only [of url pg i user st]
  show ?thesis
    by (simp add: create_cashfree_order_def authenticateToken_def
        store_create_cashfree_order_handler)
qed (simp_all add: create_cashfree_order_def authenticateToken_def reply_def)

theorem create_cashfree_order_success_frame_witness:
  "res (create_cashfree_order (ValidToken alice) ''https://shop.example'' gateway_paid ''o1''
          (one_order_db ''9876543210'' PENDING))
     = Response 200 [(''success'', JBool True),
                     (''payment_session_id'', JField (Some ''session_1'')),
                     (''order_id'', JField (Some ''o1''))]
   \<and> store (create_cashfree_order (ValidToken alice) ''https://shop.example'' gateway_paid ''o1''
          (one_order_db ''9876543210'' PENDING))
     = one_order_db ''9876543210'' PENDING"
proof -
  let ?ord = "online_order ''9876543210'' PENDING"
  let ?data = "Some [(''payment_session_id'', ''session_1''), (''order_id'', ''o1'')]"
  have "orders (one_order_db ''9876543210'' PENDING) ''o1'' = Some ?ord"
    and "paymentMethod ?ord = ONLINE"
    and "phone (shippingAddress ?ord) = Some ''9876543210''"
    and "length ''9876543210'' = 10"
    and "post gateway_paid ''/checkout/orders''
           (cashfree_payload ''https://shop.example'' ''o1'' ?ord ''9876543210'') = Resolved ?data"
    and "\<not> falsy (field ?data ''payment_session_id'')"
    by (simp_all add: one_order_db_def online_order_def home_def gateway_paid_def
        cashfree_payload_def falsy_def field_def)
  with create_cashfree_order_success_frame
         [of "ValidToken alice" "''https://shop.example''" gateway_paid "''o1''"
             "one_order_db ''9876543210'' PENDING"]
  have "res (create_cashfree_order (ValidToken alice) ''https://shop.example'' gateway_paid ''o1''
               (one_order_db ''9876543210'' PENDING))
          = Response 200 [(''success'', JBool True),
                          (''payment_session_id'', JField (field ?data ''payment_session_id'')),
                          (''order_id'', JField (field ?data ''order_id''))]
      \<and> store (create_cashfree_order (ValidToken alice) ''https://shop.example'' gateway_paid ''o1''
               (one_order_db ''9876543210'' PENDING))
          = one_order_db ''9876543210'' PENDING"
    by blast
  then show ?thesis
    by (simp add: field_def)
qed

subsection \<open>Verifying a payment for an order that is not stored\<close>

text \<open>C8. When the gateway reports \<open>PAID\<close> for an id under which no order is stored,
  \<^verbatim>\<open>POST /verify-payment\<close> replies 200 \<open>success: true\<close>, changes nothing and logs
  nothing; the reply does not depend on the database at all, so it is the reply given
  for a stored order.\<close>

theorem verify_payment_unknown_order:
  assumes "orders st i = None" and "reported_status pg i = Some ''PAID''"
  shows "verify_payment (ValidToken user) pg i st =
           \<lparr>res = Response 200 [(''success'', JBool True)], store = st,
            calls = [Get (''/orders/'' @ i)], logs = []\<rparr>
       \<and> (\<forall>st'. res (verify_payment (ValidToken user) pg i st')
                  = res (verify_payment (ValidToken user) pg i st))"
  using assms
  by (simp add: verify_payment_def authenticateToken_def verify_payment_handler_paid
      findByIdAndUpdate_def)

theorem verify_payment_unknown_order_witness:
  "verify_payment (ValidToken alice) gateway_paid ''o2'' (one_order_db ''9876543210'' PENDING) =
     \<lparr>res = Response 200 [(''success'', JBool True)],
      store = one_order_db ''9876543210'' PENDING,
      calls = [Get ''/orders/o2''], logs = []\<rparr>
   \<and> res (verify_payment (ValidToken alice) gateway_paid ''o2'' (one_order_db ''9876543210'' PENDING))
     = res (verify_payment (ValidToken alice) gateway_paid ''o2''
              \<lparr>orders = [''o2'' \<mapsto> online_order ''9876543210'' PENDING], products = []\<rparr>)"
proof -
  have "orders (one_order_db ''9876543210'' PENDING) ''o2'' = None"
    by (simp add: one_order_db_def)
  moreover have "reported_status gateway_paid ''o2'' = Some ''PAID''"
    by (simp add: reported_status_def gateway_paid_def field_def)
  ultimately have known:
    "verify_payment (ValidToken alice) gateway_paid ''o2'' (one_order_db ''9876543210'' PENDING) =
       \<lparr>res = Response 200 [(''success'', JBool True)],
        store = one_order_db ''9876543210'' PENDING,
        calls = [Get (''/orders/'' @ ''o2'')], logs = []\<rparr>"
    and same: "\<forall>st'. res (verify_payment (ValidToken alice) gateway_paid ''o2'' st')
                 = res (verify_payment (ValidToken alice) gateway_paid ''o2''
                          (one_order_db ''9876543210'' PENDING))"
    using verify_payment_unknown_order [of "one_order_db ''9876543210'' PENDING" "''o2''" gateway_paid alice]
    by blast+
  from same have "res (verify_payment (ValidToken alice) gateway_paid ''o2''
                        \<lparr>orders = [''o2'' \<mapsto> online_order ''9876543210'' PENDING], products = []\<rparr>)
                 = res (verify_payment (ValidToken alice) gateway_paid ''o2''
                          (one_order_db ''9876543210'' PENDING))"
    by (rule spec)
  with known show ?thesis
    by simp
qed

subsection \<open>Placing an order: what the total is computed from\<close>





subsection \<open>The caller's identity\<close>

text \<open>C10. For any two authenticated callers, \<^verbatim>\<open>POST /create-cashfree-order\<close> and
  \<^verbatim>\<open>POST /verify-payment\<close> with the same order id, database and gateway give the same
  reply, database, gateway calls and log: neither route reads \<^verbatim>\<open>req.user\<close>.\<close>

theorem caller_identity_unread:
  "create_cashfree_order (ValidToken caller1) url pg i st
     = create_cashfree_order (ValidToken caller2) url pg i st
   \<and> verify_payment (ValidToken caller1) pg i st = verify_payment (ValidToken caller2) pg i st"
  by (simp add: create_cashfree_order_def verify_payment_def authenticateToken_def
      create_cashfree_order_handler_def verify_payment_handler_def)

theorem caller_identity_unread_witness:
  "create_cashfree_order (ValidToken alice) ''https://shop.example'' gateway_paid ''o1''
       (one_order_db ''9876543210'' PENDING)
     = create_cashfree_order (ValidToken bob) ''https://shop.example'' gateway_paid ''o1''
         (one_order_db ''9876543210'' PENDING)
   \<and> verify_payment (ValidToken alice) gateway_paid ''o1'' (one_order_db ''9876543210'' PENDING)
     = verify_payment (ValidToken bob) gateway_paid ''o1'' (one_order_db ''9876543210'' PENDING)"
  by (rule caller_identity_unread)

end
